theory Spec2Isabelle
  imports Main "HOL-Library.AList"
begin

section \<open>JavaScript values\<close>

text \<open>
  The values the wrapper handles: documents are plain objects, \<open>_METADATA\<close> is a nested
  object holding \<open>Date\<close> objects and the document id, the timer registry is an array of
  numbers. An object is an association list with distinct keys, in property order.
  \<open>JDate t\<close> is a \<open>Date\<close> object for the clock reading \<open>t\<close> (milliseconds);
  \<open>JIso t\<close> is the string \<open>toISOString\<close> gives for it, which is what
  \<open>JSON.stringify\<close> writes for a \<open>Date\<close>.
\<close>

datatype jsval =
    JUndefined
  | JNull
  | JBool bool
  | JNum int
  | JStr string
  | JDate int
  | JIso int
  | JArr "jsval list"
  | JObj "(string \<times> jsval) list"

type_synonym object = "(string \<times> jsval) list"

text \<open>\<open>!v\<close> is \<open>\<not> truthy v\<close>.\<close>

fun truthy :: "jsval \<Rightarrow> bool" where
  "truthy JUndefined = False"
| "truthy JNull = False"
| "truthy (JBool b) = b"
| "truthy (JNum n) = (n \<noteq> 0)"
| "truthy (JStr s) = (s \<noteq> [])"
| "truthy (JDate t) = True"
| "truthy (JIso t) = True"
| "truthy (JArr xs) = True"
| "truthy (JObj kvs) = True"

text \<open>
  \<open>v.k\<close> throws a TypeError when \<open>v\<close> is \<open>null\<close> or \<open>undefined\<close>; every caller
  tests \<open>nullish\<close> (or truthiness) first, as the evaluation order of the source does.
  On any other value a property that is not there reads as \<open>undefined\<close>. The names the
  wrapper reads are \<open>_METADATA\<close>, \<open>_DATE_CREATED\<close> and \<open>lenth\<close>; index names and
  inherited members are not among them. \<open>length\<close> is there for contrast: an array has
  it (an ISO string of a four-digit year has 24 characters), and has no \<open>lenth\<close>.
\<close>

fun nullish :: "jsval \<Rightarrow> bool" where
  "nullish JUndefined = True"
| "nullish JNull = True"
| "nullish v = False"

fun member :: "jsval \<Rightarrow> string \<Rightarrow> jsval" where
  "member (JObj kvs) k = (case map_of kvs k of None \<Rightarrow> JUndefined | Some v \<Rightarrow> v)"
| "member (JArr xs) k = (if k = ''length'' then JNum (int (length xs)) else JUndefined)"
| "member (JStr s) k = (if k = ''length'' then JNum (int (length s)) else JUndefined)"
| "member (JIso t) k = (if k = ''length'' then JNum 24 else JUndefined)"
| "member v k = JUndefined"

text \<open>
  \<open>ToNumber\<close>, with \<open>None\<close> for NaN. Numeric strings, arrays and objects are outside
  what the wrapper ever converts (it stores only numbers under a timer key and reads
  \<open>lenth\<close> of an array); they are taken as NaN here.
\<close>

fun to_number :: "jsval \<Rightarrow> int option" where
  "to_number JUndefined = None"
| "to_number JNull = Some 0"
| "to_number (JBool b) = Some (if b then 1 else 0)"
| "to_number (JNum n) = Some n"
| "to_number (JStr s) = (if s = [] then Some 0 else None)"
| "to_number (JDate t) = Some t"
| "to_number (JIso t) = None"
| "to_number (JArr xs) = None"
| "to_number (JObj kvs) = None"

text \<open>\<open>v > n\<close>: false when \<open>v\<close> converts to NaN.\<close>

definition js_gt :: "jsval \<Rightarrow> int \<Rightarrow> bool" where
  "js_gt v n = (case to_number v of None \<Rightarrow> False | Some m \<Rightarrow> m > n)"

text \<open>
  \<open>a === b\<close> for values that come from two separate \<open>JSON.parse\<close> calls: primitives
  compare by value, two objects or arrays are never the same object. A parsed entry is
  never a \<open>JIso\<close> at top level, so a plain string and an ISO string are taken as different.
\<close>

fun strict_eq :: "jsval \<Rightarrow> jsval \<Rightarrow> bool" where
  "strict_eq JUndefined JUndefined = True"
| "strict_eq JNull JNull = True"
| "strict_eq (JBool a) (JBool b) = (a = b)"
| "strict_eq (JNum a) (JNum b) = (a = b)"
| "strict_eq (JStr a) (JStr b) = (a = b)"
| "strict_eq (JIso a) (JIso b) = (a = b)"
| "strict_eq a b = False"

text \<open>
  \<open>JSON.parse(JSON.stringify(v))\<close>: a \<open>Date\<close> becomes its ISO string, a property whose
  value is \<open>undefined\<close> is dropped, an \<open>undefined\<close> array element becomes \<open>null\<close>.
\<close>

fun json :: "jsval \<Rightarrow> jsval" where
  "json (JDate t) = JIso t"
| "json (JArr xs) = JArr (map (\<lambda>x. if x = JUndefined then JNull else json x) xs)"
| "json (JObj kvs) =
     JObj (map (\<lambda>(k, v). (k, json v)) (filter (\<lambda>(k, v). v \<noteq> JUndefined) kvs))"
| "json v = v"

text \<open>
  The own properties an object spread \<open>{...v}\<close> copies: those of an object, none of a
  number, a boolean or \<open>null\<close>. Under a document key the wrapper stores objects (and,
  where the key of one document is the timer or merge key of another, numbers and
  booleans); the index properties of an array or a string are left out.
\<close>

fun own_props :: "jsval \<Rightarrow> object" where
  "own_props (JObj kvs) = kvs"
| "own_props v = []"

text \<open>
  \<open>{...a, ...b}\<close>: the properties of \<open>a\<close>, then each property of \<open>b\<close> in turn, set in
  place when the key is there already and appended otherwise.
\<close>

definition spread :: "object \<Rightarrow> object \<Rightarrow> object" where
  "spread a b = fold (\<lambda>(k, v). AList.update k v) b a"

definition field :: "object \<Rightarrow> string \<Rightarrow> jsval" where
  "field obj k = member (JObj obj) k"

section \<open>The world the wrapper runs in\<close>

text \<open>
  Modelled from the spec: the status tags \<open>CONSTANTS.SUCCESS\<close> and \<open>CONSTANTS.ERROR\<close>
  of \<open>src/constants\<close>, which is not among the source files; the spec gives the result
  callback the signature \<open>(status: SUCCESS|ERROR, payload)\<close>.
\<close>

datatype status = SUCCESS | ERROR

type_synonym firestore_error = string

text \<open>
  What a callback is called with besides the status: the \<open>{message: 'Invalid parameters.
  ...'}\<close> object, the \<open>{message: 'No Document found ...'}\<close> object, a document, a
  document reference (by its id), the error of a rejected backend promise, or nothing.
\<close>

datatype payload =
    Invalid_parameters
  | No_document_found
  | Document object
  | DocRef string
  | Backend_error firestore_error
  | No_payload

text \<open>
  A callback is a function of the caller; calling it is recorded in the world.
  \<open>Noop\<close> is the default \<open>() => {}\<close>.
\<close>

datatype callback = Noop | Callback nat

datatype jserror = TypeError | ReferenceError

datatype promise = Fulfilled | Rejected firestore_error

datatype retval = Undefined | Promise promise

datatype outcome = Returned retval | Threw jserror

text \<open>
  The closure \<open>saveToBackend\<close> built by one call of \<open>SetItem\<close>: it captures that
  call's \<open>collectionId\<close>, \<open>itemId\<close>, \<open>document\<close>, \<open>overwrite\<close> and \<open>callback\<close>.
\<close>

record closure =
  cl_collectionId :: string
  cl_itemId :: string
  cl_document :: object
  cl_overwrite :: bool
  cl_callback :: callback

text \<open>One call \<open>setDoc(docRef, document, {merge})\<close>; without options \<open>merge\<close> is false.\<close>

record setDoc_call =
  sd_collectionId :: string
  sd_itemId :: string
  sd_document :: object
  sd_merge :: bool

text \<open>
  \<open>localStorage\<close> maps a key to a JSON text; the model keeps the value \<open>JSON.parse\<close>
  gives for that text. \<open>timers\<close> are the armed timeouts (handle, delay, closure),
  \<open>next_timer\<close> the handle the next \<open>setTimeout\<close> returns. \<open>setDocs\<close>, \<open>getDocs\<close>
  and \<open>callbacks\<close> record the backend calls and the callback calls, in order;
  \<open>unhandled\<close> the rejections no handler took.
\<close>

record world =
  localStorage :: "string \<rightharpoonup> jsval"
  timers :: "(nat \<times> nat \<times> closure) list"
  next_timer :: nat
  setDocs :: "setDoc_call list"
  getDocs :: "(string \<times> string) list"
  callbacks :: "(nat \<times> status \<times> payload) list"
  unhandled :: "firestore_error list"

definition world0 :: world where
  "world0 = \<lparr>localStorage = Map.empty, timers = [], next_timer = 1, setDocs = [],
             getDocs = [], callbacks = [], unhandled = []\<rparr>"

definition call :: "callback \<Rightarrow> status \<Rightarrow> payload \<Rightarrow> world \<Rightarrow> world" where
  "call cb st p w =
     (case cb of Noop \<Rightarrow> w | Callback n \<Rightarrow> w\<lparr>callbacks := callbacks w @ [(n, st, p)]\<rparr>)"

text \<open>\<open>JSON.parse(localStorage.getItem(k))\<close>: a missing key reads as \<open>null\<close>.\<close>

definition parse_item :: "world \<Rightarrow> string \<Rightarrow> jsval" where
  "parse_item w k = (case localStorage w k of None \<Rightarrow> JNull | Some v \<Rightarrow> v)"

text \<open>\<open>localStorage.setItem(k, JSON.stringify(v))\<close>.\<close>

definition setItem :: "string \<Rightarrow> jsval \<Rightarrow> world \<Rightarrow> world" where
  "setItem k v w = w\<lparr>localStorage := (localStorage w)(k \<mapsto> json v)\<rparr>"

definition setTimeout :: "closure \<Rightarrow> nat \<Rightarrow> world \<Rightarrow> nat \<times> world" where
  "setTimeout cl ms w =
     (next_timer w,
      w\<lparr>timers := timers w @ [(next_timer w, ms, cl)], next_timer := Suc (next_timer w)\<rparr>)"

definition clearTimeout :: "jsval \<Rightarrow> world \<Rightarrow> world" where
  "clearTimeout v w =
     (case to_number v of
        None \<Rightarrow> w
      | Some n \<Rightarrow> w\<lparr>timers := filter (\<lambda>t. int (fst t) \<noteq> n) (timers w)\<rparr>)"

section \<open>store.js: the edit path\<close>

text \<open>
  An identifier argument is a string or missing (\<open>None\<close>); \<open>!id\<close> holds when it is
  missing or empty. \<open>data\<close> is an object or missing.
\<close>

definition missing :: "string option \<Rightarrow> bool" where
  "missing x = (case x of None \<Rightarrow> True | Some s \<Rightarrow> s = [])"

text \<open>
  Lines 205 to 216 of \<open>SetItem\<close> (the same lines in asyncstore.js): the metadata object
  is built afresh with \<open>_DATE_LAST_MODIFIED\<close> and \<open>_DOCUMENT_ID\<close>; \<open>_DATE_CREATED\<close> is
  added only when \<open>overwrite || !data._METADATA || !data._METADATA._DATE_CREATED\<close>. The
  new object replaces the \<open>_METADATA\<close> of \<open>data\<close> in \<open>{ ...data, _METADATA }\<close>.
\<close>

definition fresh_created :: "object \<Rightarrow> bool \<Rightarrow> bool" where
  "fresh_created data overwrite =
     (if overwrite then True
      else if \<not> truthy (field data ''_METADATA'') then True
      else \<not> truthy (member (field data ''_METADATA'') ''_DATE_CREATED''))"

definition METADATA :: "string \<Rightarrow> object \<Rightarrow> bool \<Rightarrow> int \<Rightarrow> object" where
  "METADATA itemId data overwrite currentdate =
     (let m = [(''_DATE_LAST_MODIFIED'', JDate currentdate), (''_DOCUMENT_ID'', JStr itemId)]
      in if fresh_created data overwrite
         then AList.update ''_DATE_CREATED'' (JDate currentdate) m
         else m)"

definition stamp :: "string \<Rightarrow> object \<Rightarrow> bool \<Rightarrow> int \<Rightarrow> object" where
  "stamp itemId data overwrite currentdate =
     AList.update ''_METADATA'' (JObj (METADATA itemId data overwrite currentdate)) data"

text \<open>
  \<open>saveToBackend\<close>: one \<open>setDoc\<close> with \<open>merge: !overwrite\<close>; \<open>resp\<close> is how the backend
  answers (\<open>None\<close>: the promise resolves, \<open>Some e\<close>: it rejects with \<open>e\<close>). It touches
  nothing in \<open>localStorage\<close>.
\<close>

definition saveToBackend :: "closure \<Rightarrow> firestore_error option \<Rightarrow> world \<Rightarrow> world" where
  "saveToBackend cl resp w =
     (let w1 = w\<lparr>setDocs := setDocs w @
                 [\<lparr>sd_collectionId = cl_collectionId cl, sd_itemId = cl_itemId cl,
                   sd_document = cl_document cl, sd_merge = (\<not> cl_overwrite cl)\<rparr>]\<rparr>
      in case resp of
           None \<Rightarrow> call (cl_callback cl) SUCCESS (Document (cl_document cl)) w1
         | Some e \<Rightarrow> call (cl_callback cl) ERROR (Backend_error e) w1)"

text \<open>
  The part of \<open>SetItem\<close> below \<open>// ------------ DELAY -------------\<close> (lines 242 to 295).
  \<open>timerIds.filter\<close> is a TypeError when the parsed registry is a truthy value that is
  not an array.
\<close>

definition documentKey :: "string \<Rightarrow> string \<Rightarrow> string" where
  "documentKey collectionId itemId = collectionId @ ''.'' @ itemId"

definition timerKey :: "string \<Rightarrow> string \<Rightarrow> string" where
  "timerKey collectionId itemId = documentKey collectionId itemId @ ''-TIMER''"

definition mergeKey :: "string \<Rightarrow> string \<Rightarrow> string" where
  "mergeKey collectionId itemId = documentKey collectionId itemId @ ''-MERGE''"

definition timerIDsKey :: string where
  "timerIDsKey = ''TIMER_IDS''"

definition delay_first :: "closure \<Rightarrow> jsval \<Rightarrow> world \<Rightarrow> world \<times> outcome" where
  "delay_first cl timerIds w =
     (let c = cl_collectionId cl; i = cl_itemId cl;
          w1 = setItem (documentKey c i) (JObj (cl_document cl)) w;
          timerID = fst (setTimeout cl 5000 w1);
          w2 = snd (setTimeout cl 5000 w1);
          w3 = setItem (timerKey c i) (JNum (int timerID)) w2;
          w4 = setItem (mergeKey c i) (JBool (\<not> cl_overwrite cl)) w3
      in (setItem timerIDsKey timerIds w4, Returned Undefined))"

definition delay_again :: "closure \<Rightarrow> jsval \<Rightarrow> world \<Rightarrow> world \<times> outcome" where
  "delay_again cl timerIds w =
     (let c = cl_collectionId cl; i = cl_itemId cl;
          cacheData = parse_item w (documentKey c i);
          cacheTimerId = parse_item w (timerKey c i);
          w1 = (if cl_overwrite cl
                then setItem (documentKey c i) (JObj (cl_document cl)) w
                else setItem (documentKey c i)
                       (JObj (spread (own_props cacheData) (cl_document cl))) w);
          w2 = clearTimeout cacheTimerId w1
      in case timerIds of
           JArr ids \<Rightarrow>
             (let ids1 = filter (\<lambda>x. \<not> strict_eq x cacheTimerId) ids;
                  timerID = fst (setTimeout cl 3000 w2);
                  w3 = snd (setTimeout cl 3000 w2);
                  w4 = setItem (timerKey c i) (JNum (int timerID)) w3;
                  ids2 = ids1 @ [JNum (int timerID)];
                  w5 = setItem (mergeKey c i) (JBool (\<not> cl_overwrite cl)) w4
              in (setItem timerIDsKey (JArr ids2) w5, Returned Undefined))
         | _ \<Rightarrow> (w2, Threw TypeError))"

definition delay :: "closure \<Rightarrow> world \<Rightarrow> world \<times> outcome" where
  "delay cl w =
     (let cacheIsEmpty = (localStorage w (documentKey (cl_collectionId cl) (cl_itemId cl)) = None);
          parsed = parse_item w timerIDsKey;
          timerIds = (if \<not> truthy parsed then JArr [] else parsed)
      in if cacheIsEmpty then delay_first cl timerIds w else delay_again cl timerIds w)"

text \<open>
  \<open>SetItem(app, collectionId, itemId, data, overwrite, callback, verbose, useDelay)\<close> of
  store.js. \<open>app\<close> and \<open>verbose\<close> (logging only) are left out; \<open>currentdate\<close> is the
  clock reading of \<open>new Date()\<close>; \<open>resp\<close> is the backend's answer to the immediate write.
  A missing \<open>callback\<close> takes the default \<open>() => {}\<close>.
\<close>

definition SetItem ::
  "string option \<Rightarrow> string option \<Rightarrow> object option \<Rightarrow> bool \<Rightarrow> callback option \<Rightarrow> bool
     \<Rightarrow> int \<Rightarrow> firestore_error option \<Rightarrow> world \<Rightarrow> world \<times> outcome" where
  "SetItem collectionId itemId data overwrite callback useDelay currentdate resp w =
     (let cb = (case callback of None \<Rightarrow> Noop | Some f \<Rightarrow> f)
      in if missing collectionId \<or> missing itemId \<or> data = None
         then (call cb ERROR Invalid_parameters w, Returned Undefined)
         else case (collectionId, itemId, data) of
           (Some c, Some i, Some d) \<Rightarrow>
             (let cl = \<lparr>cl_collectionId = c, cl_itemId = i,
                        cl_document = stamp i d overwrite currentdate,
                        cl_overwrite = overwrite, cl_callback = cb\<rparr>
              in if \<not> useDelay then (saveToBackend cl resp w, Returned (Promise Fulfilled))
                 else delay cl w)
         | _ \<Rightarrow> (call cb ERROR Invalid_parameters w, Returned Undefined))"

text \<open>
  A timeout fires: the browser drops the handle from its armed timers and runs the
  closure; the backend answers with \<open>resp\<close>. A handle that is not armed does nothing.
\<close>

definition fire :: "nat \<Rightarrow> firestore_error option \<Rightarrow> world \<Rightarrow> world" where
  "fire h resp w =
     (case map_of (timers w) h of
        None \<Rightarrow> w
      | Some (ms, cl) \<Rightarrow>
          saveToBackend cl resp (w\<lparr>timers := filter (\<lambda>t. fst t \<noteq> h) (timers w)\<rparr>))"

text \<open>Every armed timeout fires, in the order they were armed.\<close>

definition fire_all :: "firestore_error option \<Rightarrow> world \<Rightarrow> world" where
  "fire_all resp w = fold (\<lambda>h. fire h resp) (map fst (timers w)) w"

text \<open>
  A burst: buffered writes (\<open>useDelay = true\<close>) to one key, one after the other, with no
  timeout firing in between. Each write is its data, its \<open>overwrite\<close> flag and the clock
  reading of the call.
\<close>

definition burst ::
  "string \<Rightarrow> string \<Rightarrow> callback option \<Rightarrow> (object \<times> bool \<times> int) list \<Rightarrow> world \<Rightarrow> world" where
  "burst c i callback ws w =
     fold (\<lambda>(d, overwrite, now) w'.
             fst (SetItem (Some c) (Some i) (Some d) overwrite callback True now None w')) ws w"

section \<open>asyncstore.js: the edit path\<close>

text \<open>
  \<open>SetItem\<close> of asyncstore.js (lines 185 to 224): the same check and the same metadata,
  then \<open>return setDoc(docRef, document, { merge: !overwrite })\<close>. The parameter
  \<open>useDelay\<close> is declared and never read; the callback is called in the check only.
\<close>

definition async_SetItem ::
  "string option \<Rightarrow> string option \<Rightarrow> object option \<Rightarrow> bool \<Rightarrow> callback option \<Rightarrow> bool
     \<Rightarrow> int \<Rightarrow> firestore_error option \<Rightarrow> world \<Rightarrow> world \<times> outcome" where
  "async_SetItem collectionId itemId data overwrite callback useDelay currentdate resp w =
     (let cb = (case callback of None \<Rightarrow> Noop | Some f \<Rightarrow> f)
      in if missing collectionId \<or> missing itemId \<or> data = None
         then (call cb ERROR Invalid_parameters w, Returned Undefined)
         else case (collectionId, itemId, data) of
           (Some c, Some i, Some d) \<Rightarrow>
             (w\<lparr>setDocs := setDocs w @
                   [\<lparr>sd_collectionId = c, sd_itemId = i,
                     sd_document = stamp i d overwrite currentdate,
                     sd_merge = (\<not> overwrite)\<rparr>]\<rparr>,
              Returned (Promise (case resp of None \<Rightarrow> Fulfilled | Some e \<Rightarrow> Rejected e)))
         | _ \<Rightarrow> (call cb ERROR Invalid_parameters w, Returned Undefined))"

section \<open>store.js: the create path\<close>

text \<open>
  \<open>AddItem(app, collectionId, data, callback, verbose)\<close>, lines 133 to 167. \<open>newId\<close> is
  the id of the reference \<open>doc(collection(db, collectionId))\<close> generates. \<open>callback\<close>
  has no default: when it is missing the check calls \<open>undefined\<close>, a TypeError.
\<close>

definition AddItem ::
  "string option \<Rightarrow> object option \<Rightarrow> callback option \<Rightarrow> string \<Rightarrow> int
     \<Rightarrow> firestore_error option \<Rightarrow> world \<Rightarrow> world \<times> outcome" where
  "AddItem collectionId data callback newId currentdate resp w =
     (if missing collectionId \<or> data = None \<or> callback = None
      then (case callback of
              None \<Rightarrow> (w, Threw TypeError)
            | Some cb \<Rightarrow> (call cb ERROR Invalid_parameters w, Returned Undefined))
      else case (collectionId, data, callback) of
        (Some c, Some d, Some cb) \<Rightarrow>
          (let metadata = [(''_DATE_LAST_MODIFIED'', JDate currentdate),
                           (''_DATE_CREATED'', JDate currentdate),
                           (''_DOCUMENT_ID'', JStr newId)];
               document = AList.update ''_METADATA'' (JObj metadata) d;
               w1 = w\<lparr>setDocs := setDocs w @
                      [\<lparr>sd_collectionId = c, sd_itemId = newId,
                        sd_document = document, sd_merge = False\<rparr>]\<rparr>
           in (case resp of
                 None \<Rightarrow> call cb SUCCESS (DocRef newId) w1
               | Some e \<Rightarrow> call cb ERROR (Backend_error e) w1,
               Returned Undefined))
      | _ \<Rightarrow> (w, Returned Undefined))"

section \<open>The read path, in both files of store.js\<close>

datatype get_response = Exists object | Absent | Get_rejected firestore_error

text \<open>
  \<open>GetItem\<close>, lines 45 to 69: the check reports and returns; otherwise one \<open>getDoc\<close>,
  whose promise has a \<open>then\<close> and no \<open>catch\<close>.
\<close>

definition GetItem ::
  "string option \<Rightarrow> string option \<Rightarrow> callback option \<Rightarrow> get_response \<Rightarrow> world
     \<Rightarrow> world \<times> outcome" where
  "GetItem collectionId itemId callback resp w =
     (if missing collectionId \<or> missing itemId \<or> callback = None
      then (case callback of
              None \<Rightarrow> (w, Threw TypeError)
            | Some cb \<Rightarrow> (call cb ERROR Invalid_parameters w, Returned Undefined))
      else case (collectionId, itemId, callback) of
        (Some c, Some i, Some cb) \<Rightarrow>
          (let w1 = w\<lparr>getDocs := getDocs w @ [(c, i)]\<rparr>
           in (case resp of
                 Exists d \<Rightarrow> call cb SUCCESS (Document d) w1
               | Absent \<Rightarrow> call cb ERROR No_document_found w1
               | Get_rejected e \<Rightarrow> w1\<lparr>unhandled := unhandled w1 @ [e]\<rparr>,
               Returned Undefined))
      | _ \<Rightarrow> (w, Returned Undefined))"

text \<open>
  \<open>GetItem\<close> of the second file, lines 429 to 452: the same check, with no \<open>return\<close>
  after the callback, so control goes on to \<open>const db = getDatabase(app)\<close>. That file
  neither imports nor declares \<open>getDatabase\<close>: reading the name is a ReferenceError, with
  valid arguments too, and the lines below it are never reached.
\<close>

definition GetItem_2 ::
  "string option \<Rightarrow> string option \<Rightarrow> callback option \<Rightarrow> get_response \<Rightarrow> world
     \<Rightarrow> world \<times> outcome" where
  "GetItem_2 collectionId itemId callback resp w =
     (if missing collectionId \<or> missing itemId \<or> callback = None
      then (case callback of
              None \<Rightarrow> (w, Threw TypeError)
            | Some cb \<Rightarrow> (call cb ERROR Invalid_parameters w, Threw ReferenceError))
      else (w, Threw ReferenceError))"

section \<open>The shutdown handler\<close>

text \<open>The \<open>beforeunload\<close> event, as far as the handler touches it.\<close>

record event =
  defaultPrevented :: bool
  returnValue :: "string option"

definition event0 :: event where
  "event0 = \<lparr>defaultPrevented = False, returnValue = None\<rparr>"

text \<open>
  \<open>clearCacheBeforeUnload(e)\<close>, lines 371 to 378 of store.js and 299 to 306 of
  asyncstore.js: it reads \<open>timerIds.lenth\<close>, as the source spells it. It only reads the
  world.
\<close>

definition clearCacheBeforeUnload :: "event \<Rightarrow> world \<Rightarrow> event \<times> outcome" where
  "clearCacheBeforeUnload e w =
     (let timerIds = parse_item w timerIDsKey
      in if nullish timerIds then (e, Threw TypeError)
         else if js_gt (member timerIds ''lenth'') 0
         then (e\<lparr>defaultPrevented := True,
                 returnValue := Some (''We'' @ [CHR 0x27] @
                   ''re still saving your data...please wait a couple seconds!'')\<rparr>,
               Returned Undefined)
         else (e, Returned Undefined))"

section \<open>Notions the statements use\<close>

text \<open>
  The timer registry is usable when the entry under \<open>TIMER_IDS\<close> is missing, falsy or an
  array: \<open>SetItem\<close> writes nothing else there.
\<close>

definition registry_ok :: "world \<Rightarrow> bool" where
  "registry_ok w =
     (case localStorage w timerIDsKey of
        None \<Rightarrow> True
      | Some v \<Rightarrow> (case v of JArr ids \<Rightarrow> True | _ \<Rightarrow> \<not> truthy v))"

text \<open>
  One timeout is armed, it carries the closure \<open>cl\<close>, and the entries of the key
  \<open>c.i\<close> record it: the invariant of a burst.
\<close>

definition armed :: "string \<Rightarrow> string \<Rightarrow> closure \<Rightarrow> world \<Rightarrow> bool" where
  "armed c i cl w =
     (\<exists>h ms ids. timers w = [(h, ms, cl)]
        \<and> localStorage w (timerKey c i) = Some (JNum (int h))
        \<and> localStorage w (documentKey c i) \<noteq> None
        \<and> localStorage w timerIDsKey = Some (JArr ids))"

text \<open>The closure a buffered write \<open>(d, overwrite, now)\<close> to the key \<open>c.i\<close> builds.\<close>

definition closure_of ::
  "string \<Rightarrow> string \<Rightarrow> callback option \<Rightarrow> object \<times> bool \<times> int \<Rightarrow> closure" where
  "closure_of c i callback x =
     (case x of (d, overwrite, now) \<Rightarrow>
        \<lparr>cl_collectionId = c, cl_itemId = i, cl_document = stamp i d overwrite now,
         cl_overwrite = overwrite,
         cl_callback = (case callback of None \<Rightarrow> Noop | Some f \<Rightarrow> f)\<rparr>)"

text \<open>The elements of the registry, as \<open>JSON.parse\<close> reads them.\<close>

definition registry :: "world \<Rightarrow> jsval list" where
  "registry w = (case parse_item w timerIDsKey of JArr ids \<Rightarrow> ids | _ \<Rightarrow> [])"

text \<open>
  The spec's coalesced document: the shallow merge of the documents of a burst, in call
  order, later fields overriding earlier ones.
\<close>

definition shallow_merge :: "object list \<Rightarrow> object" where
  "shallow_merge ds = fold (\<lambda>d acc. spread acc d) ds []"

text \<open>The backend writes a call added to those of \<open>w\<close>.\<close>

definition new_setDocs :: "world \<Rightarrow> world \<Rightarrow> setDoc_call list" where
  "new_setDocs w w' = drop (length (setDocs w)) (setDocs w')"

section \<open>Facts about the storage keys, the timers and a buffered write\<close>

lemma dot_in_documentKey: "CHR ''.'' \<in> set (documentKey c i)"
  by (simp add: documentKey_def)

lemma dot_notin_timerIDsKey: "CHR ''.'' \<notin> set timerIDsKey"
  by (simp add: timerIDsKey_def)

lemma documentKey_neq_timerIDsKey: "documentKey c i \<noteq> timerIDsKey"
  using dot_in_documentKey [of c i] dot_notin_timerIDsKey by metis

lemma timerKey_neq_timerIDsKey: "timerKey c i \<noteq> timerIDsKey"
proof
  assume h: "timerKey c i = timerIDsKey"
  have "CHR ''.'' \<in> set (timerKey c i)"
    using dot_in_documentKey [of c i] by (simp add: timerKey_def)
  with h show False using dot_notin_timerIDsKey by simp
qed

lemma mergeKey_neq_timerIDsKey: "mergeKey c i \<noteq> timerIDsKey"
proof
  assume h: "mergeKey c i = timerIDsKey"
  have "CHR ''.'' \<in> set (mergeKey c i)"
    using dot_in_documentKey [of c i] by (simp add: mergeKey_def)
  with h show False using dot_notin_timerIDsKey by simp
qed

lemma documentKey_neq_timerKey: "documentKey c i \<noteq> timerKey c i"
  by (simp add: timerKey_def)

lemma documentKey_neq_mergeKey: "documentKey c i \<noteq> mergeKey c i"
  by (simp add: mergeKey_def)

lemma timerKey_neq_mergeKey: "timerKey c i \<noteq> mergeKey c i"
  by (simp add: timerKey_def mergeKey_def)

lemmas key_distinct =
  documentKey_neq_timerIDsKey timerKey_neq_timerIDsKey mergeKey_neq_timerIDsKey
  documentKey_neq_timerKey documentKey_neq_mergeKey timerKey_neq_mergeKey
  documentKey_neq_timerIDsKey [symmetric] timerKey_neq_timerIDsKey [symmetric]
  mergeKey_neq_timerIDsKey [symmetric] documentKey_neq_timerKey [symmetric]
  documentKey_neq_mergeKey [symmetric] timerKey_neq_mergeKey [symmetric]

lemma setItem_simps:
  "localStorage (setItem k v w) = (localStorage w)(k \<mapsto> json v)"
  "timers (setItem k v w) = timers w"
  "next_timer (setItem k v w) = next_timer w"
  "setDocs (setItem k v w) = setDocs w"
  "callbacks (setItem k v w) = callbacks w"
  by (simp_all add: setItem_def)

lemma setTimeout_simps:
  "fst (setTimeout cl ms w) = next_timer w"
  "localStorage (snd (setTimeout cl ms w)) = localStorage w"
  "timers (snd (setTimeout cl ms w)) = timers w @ [(next_timer w, ms, cl)]"
  "setDocs (snd (setTimeout cl ms w)) = setDocs w"
  "callbacks (snd (setTimeout cl ms w)) = callbacks w"
  by (simp_all add: setTimeout_def)

lemma clearTimeout_simps:
  "localStorage (clearTimeout v w) = localStorage w"
  "next_timer (clearTimeout v w) = next_timer w"
  "setDocs (clearTimeout v w) = setDocs w"
  "callbacks (clearTimeout v w) = callbacks w"
  by (simp_all add: clearTimeout_def split: option.splits)

lemma clearTimeout_none: "timers w = [] \<Longrightarrow> timers (clearTimeout v w) = []"
  by (simp add: clearTimeout_def split: option.splits)

lemma clearTimeout_single:
  "timers w = [(h, ms, cl)] \<Longrightarrow> timers (clearTimeout (JNum (int h)) w) = []"
  by (simp add: clearTimeout_def)

lemma delay_first_armed:
  assumes "cl_collectionId cl = c" "cl_itemId cl = i" "timers w = []"
  shows "armed c i cl (fst (delay_first cl (JArr ids) w))"
  using assms
  by (simp add: delay_first_def armed_def Let_def setItem_simps setTimeout_simps key_distinct)

lemma delay_first_log:
  "setDocs (fst (delay_first cl ids w)) = setDocs w"
  "callbacks (fst (delay_first cl ids w)) = callbacks w"
  by (simp_all add: delay_first_def Let_def setItem_simps setTimeout_simps)

lemma delay_again_armed:
  assumes "cl_collectionId cl = c" "cl_itemId cl = i"
    and "timers (clearTimeout (parse_item w (timerKey c i)) w) = []"
  shows "armed c i cl (fst (delay_again cl (JArr ids) w))"
  using assms
  by (simp add: delay_again_def armed_def Let_def setItem_simps setTimeout_simps
      clearTimeout_simps clearTimeout_def key_distinct split: option.splits)

lemma delay_again_log:
  "setDocs (fst (delay_again cl ids w)) = setDocs w"
  "callbacks (fst (delay_again cl ids w)) = callbacks w"
  by (simp_all add: delay_again_def Let_def setItem_simps setTimeout_simps clearTimeout_simps
      split: jsval.splits)

lemma delay_from_quiet:
  assumes "cl_collectionId cl = c" "cl_itemId cl = i" "timers w = []" "registry_ok w"
  shows "armed c i cl (fst (delay cl w))"
proof -
  obtain ids where ids: "(if \<not> truthy (parse_item w timerIDsKey) then JArr []
                          else parse_item w timerIDsKey) = JArr ids"
    using assms(4)
    by (cases "localStorage w timerIDsKey")
       (auto simp: registry_ok_def parse_item_def split: jsval.splits)
  show ?thesis
    using assms(1-3) ids
    by (simp add: delay_def Let_def delay_first_armed delay_again_armed clearTimeout_none)
qed

lemma delay_from_armed:
  assumes "cl_collectionId cl = c" "cl_itemId cl = i" "armed c i cl0 w"
  shows "armed c i cl (fst (delay cl w))"
proof -
  from assms(3) obtain h ms ids dv where
    t: "timers w = [(h, ms, cl0)]" and
    k: "localStorage w (timerKey c i) = Some (JNum (int h))" and
    d: "localStorage w (documentKey c i) = Some dv" and
    r: "localStorage w timerIDsKey = Some (JArr ids)"
    by (auto simp: armed_def)
  have p: "parse_item w (timerKey c i) = JNum (int h)"
    using k by (simp add: parse_item_def)
  have c: "timers (clearTimeout (parse_item w (timerKey c i)) w) = []"
    using t by (simp add: p clearTimeout_single)
  have "delay cl w = delay_again cl (JArr ids) w"
    using assms(1,2) d r by (simp add: delay_def Let_def parse_item_def)
  then show ?thesis
    using assms(1,2) c by (simp add: delay_again_armed)
qed

lemma delay_log:
  "setDocs (fst (delay cl w)) = setDocs w"
  "callbacks (fst (delay cl w)) = callbacks w"
  by (simp_all add: delay_def Let_def delay_first_log delay_again_log)

lemma SetItem_delay:
  assumes "c \<noteq> []" "i \<noteq> []"
  shows "SetItem (Some c) (Some i) (Some d) overwrite callback True now resp w =
           delay (closure_of c i callback (d, overwrite, now)) w"
  using assms by (simp add: SetItem_def missing_def closure_of_def Let_def)

lemma burst_single:
  "burst c i callback [x] w =
     fst (SetItem (Some c) (Some i) (Some (fst x)) (fst (snd x)) callback True (snd (snd x))
            None w)"
  by (simp add: burst_def split_def)

lemma burst_snoc:
  "burst c i callback (ws @ [x]) w =
     fst (SetItem (Some c) (Some i) (Some (fst x)) (fst (snd x)) callback True (snd (snd x))
            None (burst c i callback ws w))"
  by (simp add: burst_def split_def)

lemma closure_of_sel:
  "closure_of c i callback (fst x, fst (snd x), snd (snd x)) = closure_of c i callback x"
  "cl_collectionId (closure_of c i callback x) = c"
  "cl_itemId (closure_of c i callback x) = i"
  by (simp_all add: closure_of_def split_def)

lemma burst_log:
  assumes "c \<noteq> []" "i \<noteq> []"
  shows "setDocs (burst c i callback ws w) = setDocs w \<and>
         callbacks (burst c i callback ws w) = callbacks w"
proof (induction ws rule: rev_induct)
  case Nil
  show ?case by (simp add: burst_def)
next
  case (snoc x ws)
  then show ?case
    using assms by (simp add: burst_snoc SetItem_delay delay_log)
qed

lemma burst_armed:
  assumes "c \<noteq> []" "i \<noteq> []" "timers w = []" "registry_ok w"
  shows "armed c i (closure_of c i callback x) (burst c i callback (ws @ [x]) w)"
proof (induction ws arbitrary: x rule: rev_induct)
  case Nil
  have "armed c i (closure_of c i callback x) (fst (delay (closure_of c i callback x) w))"
    using assms(3,4) by (intro delay_from_quiet) (simp_all add: closure_of_sel)
  then show ?case
    using assms(1,2) by (simp add: burst_single SetItem_delay closure_of_sel)
next
  case (snoc y ys)
  have step: "armed c i (closure_of c i callback x)
          (fst (delay (closure_of c i callback x) (burst c i callback (ys @ [y]) w)))"
    using snoc by (intro delay_from_armed) (simp_all add: closure_of_sel)
  have eq: "burst c i callback ((ys @ [y]) @ [x]) w =
          fst (delay (closure_of c i callback x) (burst c i callback (ys @ [y]) w))"
    using assms(1,2) by (subst burst_snoc) (simp add: SetItem_delay closure_of_sel)
  show ?case
    unfolding eq by (rule step)
qed

lemma fire_all_single:
  assumes "timers w = [(h, ms, cl)]"
  shows "fire_all resp w = saveToBackend cl resp (w\<lparr>timers := []\<rparr>)"
  using assms by (simp add: fire_all_def fire_def)

lemma saveToBackend_simps:
  "setDocs (saveToBackend cl resp w) =
     setDocs w @ [\<lparr>sd_collectionId = cl_collectionId cl, sd_itemId = cl_itemId cl,
                   sd_document = cl_document cl, sd_merge = (\<not> cl_overwrite cl)\<rparr>]"
  "localStorage (saveToBackend cl resp w) = localStorage w"
  "timers (saveToBackend cl resp w) = timers w"
  by (simp_all add: saveToBackend_def Let_def call_def split: option.splits callback.splits)

lemma fire_localStorage: "localStorage (fire h resp w) = localStorage w"
  by (simp add: fire_def saveToBackend_simps split: option.splits prod.splits)

lemma delay_entries:
  assumes "cl_collectionId cl = c" "cl_itemId cl = i" "registry_ok w"
  shows "localStorage (fst (delay cl w)) (documentKey c i) \<noteq> None \<and>
         localStorage (fst (delay cl w)) (timerKey c i) \<noteq> None \<and>
         localStorage (fst (delay cl w)) (mergeKey c i) \<noteq> None"
proof -
  obtain ids where ids: "(if \<not> truthy (parse_item w timerIDsKey) then JArr []
                          else parse_item w timerIDsKey) = JArr ids"
    using assms(3)
    by (cases "localStorage w timerIDsKey")
       (auto simp: registry_ok_def parse_item_def split: jsval.splits)
  show ?thesis
    using assms(1,2) ids
    by (simp add: delay_def delay_first_def delay_again_def Let_def setItem_simps
        setTimeout_simps clearTimeout_simps key_distinct)
qed

lemma json_elem_num:
  "((if x = JUndefined then JNull else json x) = JNum n) = (x = JNum n)"
  by (cases x) simp_all

lemma registry_setItem:
  "registry (setItem timerIDsKey (JArr ids) w) =
     map (\<lambda>x. if x = JUndefined then JNull else json x) ids"
  by (simp add: registry_def parse_item_def setItem_def)

lemma num_in_json_elems:
  "(JNum n \<in> set (map (\<lambda>x. if x = JUndefined then JNull else json x) ids)) = (JNum n \<in> set ids)"
proof (induction ids)
  case Nil
  show ?case by simp
next
  case (Cons x xs)
  have "(JNum n = (if x = JUndefined then JNull else json x)) = (JNum n = x)"
    using json_elem_num [of x n] by metis
  with Cons show ?case by simp
qed

lemma delay_again_registry:
  "registry (fst (delay_again cl (JArr ids) w)) =
     map (\<lambda>x. if x = JUndefined then JNull else json x)
       (filter (\<lambda>x. \<not> strict_eq x (parse_item w (timerKey (cl_collectionId cl) (cl_itemId cl)))) ids
          @ [JNum (int (next_timer w))])"
  by (simp add: delay_again_def Let_def registry_setItem setItem_simps setTimeout_simps
      clearTimeout_simps del: json.simps)

lemma delay_again_timers:
  "(next_timer w, 3000, cl) \<in> set (timers (fst (delay_again cl (JArr ids) w)))"
  by (simp add: delay_again_def Let_def setItem_simps setTimeout_simps clearTimeout_simps)

lemma fire_registry: "registry (fire h resp w) = registry w"
  by (simp add: registry_def parse_item_def fire_localStorage)

lemma delay_again_registry_mem:
  assumes "parse_item w (timerKey (cl_collectionId cl) (cl_itemId cl)) = JNum old"
    and "old \<noteq> int (next_timer w)"
  shows "JNum (int (next_timer w)) \<in> set (registry (fst (delay_again cl (JArr ids) w)))"
    and "JNum old \<notin> set (registry (fst (delay_again cl (JArr ids) w)))"
proof -
  let ?xs = "filter (\<lambda>x. \<not> strict_eq x (JNum old)) ids @ [JNum (int (next_timer w))]"
  have r: "registry (fst (delay_again cl (JArr ids) w)) =
             map (\<lambda>x. if x = JUndefined then JNull else json x) ?xs"
    using assms(1) by (simp only: delay_again_registry)
  have a: "JNum (int (next_timer w)) \<in> set ?xs" by simp
  have b: "JNum old \<notin> set ?xs" using assms(2) by auto
  show "JNum (int (next_timer w)) \<in> set (registry (fst (delay_again cl (JArr ids) w)))"
    unfolding r num_in_json_elems by (rule a)
  show "JNum old \<notin> set (registry (fst (delay_again cl (JArr ids) w)))"
    unfolding r num_in_json_elems by (rule b)
qed

lemma field_update: "field (AList.update k v d) k = v"
  by (simp add: field_def update_conv')

lemma truthy_member: "truthy (member m k) \<Longrightarrow> truthy m"
  by (cases m) (auto split: if_splits)

lemma world0_simps:
  "localStorage world0 = Map.empty" "timers world0 = []" "next_timer world0 = 1"
  "setDocs world0 = []" "getDocs world0 = []" "callbacks world0 = []" "unhandled world0 = []"
  by (simp_all add: world0_def)

lemma clearCacheBeforeUnload_array:
  "parse_item w timerIDsKey = JArr ids \<Longrightarrow> clearCacheBeforeUnload e w = (e, Returned Undefined)"
  by (simp add: clearCacheBeforeUnload_def js_gt_def)

lemma clearCacheBeforeUnload_absent:
  "localStorage w timerIDsKey = None \<Longrightarrow> clearCacheBeforeUnload e w = (e, Threw TypeError)"
  by (simp add: clearCacheBeforeUnload_def parse_item_def)

text \<open>The definitions a concrete run unfolds.\<close>

lemmas model_defs =
  burst_def SetItem_def missing_def delay_def delay_first_def delay_again_def
  setItem_def setTimeout_def clearTimeout_def parse_item_def world0_def
  documentKey_def timerKey_def mergeKey_def timerIDsKey_def stamp_def METADATA_def
  fresh_created_def field_def spread_def fire_all_def fire_def saveToBackend_def call_def
  Let_def

text \<open>
  The two \<open>SetItem\<close> with \<open>useDelay = false\<close>. They make the same backend writes on
  the same inputs. With an identifier or the data missing they behave alike: the same
  ERROR through the callback and no write. With valid inputs both make one write of the
  stamped document with \<open>merge = !overwrite\<close>; store.js then calls the callback
  (SUCCESS with the document, or ERROR with the backend's error) and returns a promise
  that always fulfils; asyncstore.js calls no callback and returns the backend's
  promise.
\<close>

lemma SetItem_async_SetItem_same_write:
  "setDocs (fst (SetItem collectionId itemId data overwrite callback False now resp w))
     = setDocs (fst (async_SetItem collectionId itemId data overwrite callback False now resp w))
   \<and> (missing collectionId \<or> missing itemId \<or> data = None \<longrightarrow>
        SetItem collectionId itemId data overwrite callback False now resp w
          = async_SetItem collectionId itemId data overwrite callback False now resp w
        \<and> setDocs (fst (SetItem collectionId itemId data overwrite callback False now resp w))
            = setDocs w)
   \<and> (collectionId = Some c \<and> c \<noteq> [] \<and> itemId = Some i \<and> i \<noteq> [] \<and> data = Some d \<longrightarrow>
        setDocs (fst (SetItem collectionId itemId data overwrite callback False now resp w))
          = setDocs w @ [\<lparr>sd_collectionId = c, sd_itemId = i,
               sd_document = stamp i d overwrite now, sd_merge = (\<not> overwrite)\<rparr>]
        \<and> callbacks (fst (async_SetItem collectionId itemId data overwrite callback False
                           now resp w)) = callbacks w
        \<and> snd (async_SetItem collectionId itemId data overwrite callback False now resp w)
            = Returned (Promise (case resp of None \<Rightarrow> Fulfilled | Some e \<Rightarrow> Rejected e))
        \<and> snd (SetItem collectionId itemId data overwrite callback False now resp w)
            = Returned (Promise Fulfilled)
        \<and> (callback = Some (Callback n) \<longrightarrow>
             callbacks (fst (SetItem collectionId itemId data overwrite callback False
                              now resp w))
               = callbacks w @ [(n, case resp of None \<Rightarrow> SUCCESS | Some e \<Rightarrow> ERROR,
                    case resp of None \<Rightarrow> Document (stamp i d overwrite now)
                               | Some e \<Rightarrow> Backend_error e)]))"
  by (cases collectionId; cases itemId; cases data; cases resp)
     (simp_all add: SetItem_def async_SetItem_def missing_def Let_def saveToBackend_def
        call_def split: callback.splits)

lemma SetItem_async_SetItem_same_write_instance:
  "setDocs (fst (SetItem (Some ''c'') (Some ''i'') (Some [(''a'', JNum 1)]) False
       (Some (Callback 7)) False 10 None world0))
     = [\<lparr>sd_collectionId = ''c'', sd_itemId = ''i'',
          sd_document = stamp ''i'' [(''a'', JNum 1)] False 10, sd_merge = True\<rparr>]
   \<and> setDocs (fst (async_SetItem (Some ''c'') (Some ''i'') (Some [(''a'', JNum 1)]) False
       (Some (Callback 7)) False 10 None world0))
     = [\<lparr>sd_collectionId = ''c'', sd_itemId = ''i'',
          sd_document = stamp ''i'' [(''a'', JNum 1)] False 10, sd_merge = True\<rparr>]
   \<and> callbacks (fst (async_SetItem (Some ''c'') (Some ''i'') (Some [(''a'', JNum 1)]) False
       (Some (Callback 7)) False 10 None world0)) = []
   \<and> callbacks (fst (SetItem (Some ''c'') (Some ''i'') (Some [(''a'', JNum 1)]) False
       (Some (Callback 7)) False 10 None world0))
     = [(7, SUCCESS, Document (stamp ''i'' [(''a'', JNum 1)] False 10))]
   \<and> SetItem None (Some ''i'') (Some [(''a'', JNum 1)]) False (Some (Callback 7)) False 10
        None world0
     = async_SetItem None (Some ''i'') (Some [(''a'', JNum 1)]) False (Some (Callback 7)) False
        10 None world0"
  using SetItem_async_SetItem_same_write [of "Some ''c''" "Some ''i''" "Some [(''a'', JNum 1)]"
      False "Some (Callback 7)" 10 None world0 "''c''" "''i''" "[(''a'', JNum 1)]" 7]
    SetItem_async_SetItem_same_write [of None "Some ''i''" "Some [(''a'', JNum 1)]"
      False "Some (Callback 7)" 10 None world0 "''c''" "''i''" "[(''a'', JNum 1)]" 7]
  by (auto simp: world0_simps missing_def)

section \<open>The claims\<close>

text \<open>
  C1. Two buffered writes to the key \<open>c.i\<close> from an empty store, \<open>{a: 1}\<close> and then
  \<open>{b: 2}\<close>, both with \<open>overwrite = false\<close>, and then the timeout fires. There is exactly
  one backend write, as the claim says; its document is the stamped document of the
  second call alone, in which \<open>a\<close> is \<open>undefined\<close>, although the shallow merge of the
  two documents has \<open>a = 1\<close> and the cached entry under \<open>c.i\<close> holds that merge.
\<close>

theorem coalesced_put_carries_last_document_only:
  "setDocs (fire_all None (burst ''c'' ''i'' None
       [([(''a'', JNum 1)], False, 10), ([(''b'', JNum 2)], False, 20)] world0))
     = [\<lparr>sd_collectionId = ''c'', sd_itemId = ''i'',
          sd_document = stamp ''i'' [(''b'', JNum 2)] False 20, sd_merge = True\<rparr>]
   \<and> field (stamp ''i'' [(''b'', JNum 2)] False 20) ''a'' = JUndefined
   \<and> field (shallow_merge [stamp ''i'' [(''a'', JNum 1)] False 10,
                           stamp ''i'' [(''b'', JNum 2)] False 20]) ''a'' = JNum 1
   \<and> member (parse_item (burst ''c'' ''i'' None
         [([(''a'', JNum 1)], False, 10), ([(''b'', JNum 2)], False, 20)] world0)
          (documentKey ''c'' ''i'')) ''a'' = JNum 1"
  by (simp add: shallow_merge_def model_defs)

text \<open>
  C2, as the code has it. A burst of buffered writes to one key, started with no timeout
  armed, ends in exactly one backend write: it carries the stamped document of the last
  write of the burst and \<open>merge = !overwrite\<close> of that last write. The flags of the
  earlier writes have no effect.
\<close>

theorem burst_flush_last_writer:
  assumes "c \<noteq> []" and "i \<noteq> []" and "timers w = []" and "registry_ok w"
  shows "setDocs (fire_all resp (burst c i callback (ws @ [(d, overwrite, now)]) w)) =
           setDocs w @ [\<lparr>sd_collectionId = c, sd_itemId = i,
                         sd_document = stamp i d overwrite now,
                         sd_merge = (\<not> overwrite)\<rparr>]"
proof -
  let ?w = "burst c i callback (ws @ [(d, overwrite, now)]) w"
  let ?cl = "closure_of c i callback (d, overwrite, now)"
  have "armed c i ?cl ?w"
    using assms by (rule burst_armed)
  then obtain h ms where t: "timers ?w = [(h, ms, ?cl)]"
    by (auto simp: armed_def)
  have "setDocs ?w = setDocs w"
    using burst_log [OF assms(1,2)] by simp
  then show ?thesis
    by (simp add: fire_all_single [OF t] saveToBackend_simps) (simp add: closure_of_def)
qed


theorem burst_flush_last_writer_witness:
  "''c'' \<noteq> [] \<and> ''i'' \<noteq> [] \<and> timers world0 = [] \<and> registry_ok world0
   \<and> setDocs (fire_all None (burst ''c'' ''i'' None
         ([([(''a'', JNum 1)], True, 10)] @ [([(''b'', JNum 2)], False, 20)]) world0))
       = setDocs world0 @ [\<lparr>sd_collectionId = ''c'', sd_itemId = ''i'',
            sd_document = stamp ''i'' [(''b'', JNum 2)] False 20, sd_merge = (\<not> False)\<rparr>]"
  using burst_flush_last_writer [of "''c''" "''i''" world0 None None
      "[([(''a'', JNum 1)], True, 10)]" "[(''b'', JNum 2)]" False 20]
  by (simp add: world0_def registry_ok_def)

text \<open>
  C2 as stated fails: in the burst \<open>{a: 1}\<close> with \<open>overwrite = true\<close>, then \<open>{b: 2}\<close> with
  \<open>overwrite = false\<close>, the first write asks for replacement and the one flush is a
  merge.
\<close>

theorem overwrite_then_merge_counterexample:
  "fst (snd (hd [([(''a'', JNum 1)], True, 10), ([(''b'', JNum (2::int))], False, 20::int)]))
   \<and> map sd_merge (setDocs (fire_all None (burst ''c'' ''i'' None
         [([(''a'', JNum 1)], True, 10), ([(''b'', JNum 2)], False, 20)] world0))) = [True]"
  by (simp add: model_defs)

text \<open>
  C3. After two buffered writes to one key a timeout is armed (handle 2) and the
  registry under \<open>TIMER_IDS\<close> is \<open>[2]\<close>, not empty; the shutdown handler leaves the
  event as it was and returns: it does not prevent the default and sets no message. It
  compares \<open>timerIds.lenth\<close>, which is \<open>undefined\<close> on every array, with 0. After one
  buffered write alone the timeout is armed (handle 1) and the registry is \<open>[]\<close>: the
  branch for an empty cache never pushes its handle.
\<close>

theorem shutdown_guard_lets_unflushed_write_go:
  "map fst (timers (burst ''c'' ''i'' None
       [([(''a'', JNum 1)], False, 10), ([(''b'', JNum 2)], False, 20)] world0)) = [2]
   \<and> registry (burst ''c'' ''i'' None
       [([(''a'', JNum 1)], False, 10), ([(''b'', JNum 2)], False, 20)] world0) = [JNum 2]
   \<and> clearCacheBeforeUnload event0 (burst ''c'' ''i'' None
       [([(''a'', JNum 1)], False, 10), ([(''b'', JNum 2)], False, 20)] world0)
       = (event0, Returned Undefined)
   \<and> map fst (timers (burst ''c'' ''i'' None [([(''a'', JNum 1)], False, 10)] world0)) = [1]
   \<and> registry (burst ''c'' ''i'' None [([(''a'', JNum 1)], False, 10)] world0) = []"
  by (simp add: clearCacheBeforeUnload_def js_gt_def registry_def model_defs)

text \<open>
  C4, as the code has it. A buffered write leaves the cached document, the timer handle
  and the merge flag of its key in the local store, and a timeout that fires (whatever
  its handle, whether the backend write succeeds or fails) changes nothing in the local
  store: the three entries stay, together. Nothing is removed, so nothing is half
  removed; the key stays as a buffered write left it.
\<close>

theorem flush_leaves_local_store:
  assumes "c \<noteq> []" and "i \<noteq> []" and "registry_ok w"
  shows "localStorage (fst (SetItem (Some c) (Some i) (Some d) overwrite callback True now None w))
           (documentKey c i) \<noteq> None
       \<and> localStorage (fst (SetItem (Some c) (Some i) (Some d) overwrite callback True now None w))
           (timerKey c i) \<noteq> None
       \<and> localStorage (fst (SetItem (Some c) (Some i) (Some d) overwrite callback True now None w))
           (mergeKey c i) \<noteq> None
       \<and> localStorage (fire h resp
            (fst (SetItem (Some c) (Some i) (Some d) overwrite callback True now None w)))
         = localStorage (fst (SetItem (Some c) (Some i) (Some d) overwrite callback True now None w))"
  using assms delay_entries [of "closure_of c i callback (d, overwrite, now)" c i w]
  by (simp add: SetItem_delay closure_of_sel fire_localStorage)

theorem flush_leaves_local_store_witness:
  "''c'' \<noteq> [] \<and> ''i'' \<noteq> [] \<and> registry_ok world0
   \<and> localStorage (fst (SetItem (Some ''c'') (Some ''i'') (Some [(''a'', JNum 1)]) False None
         True 10 None world0)) (documentKey ''c'' ''i'') \<noteq> None
   \<and> localStorage (fst (SetItem (Some ''c'') (Some ''i'') (Some [(''a'', JNum 1)]) False None
         True 10 None world0)) (timerKey ''c'' ''i'') \<noteq> None
   \<and> localStorage (fst (SetItem (Some ''c'') (Some ''i'') (Some [(''a'', JNum 1)]) False None
         True 10 None world0)) (mergeKey ''c'' ''i'') \<noteq> None
   \<and> localStorage (fire 1 (Some ''unavailable'')
        (fst (SetItem (Some ''c'') (Some ''i'') (Some [(''a'', JNum 1)]) False None
           True 10 None world0)))
     = localStorage (fst (SetItem (Some ''c'') (Some ''i'') (Some [(''a'', JNum 1)]) False None
         True 10 None world0))"
  using flush_leaves_local_store [of "''c''" "''i''" world0 "[(''a'', JNum 1)]" False None 10
      1 "Some ''unavailable''"]
  by (simp add: world0_def registry_ok_def)

text \<open>
  C4 as stated fails: one buffered write from an empty store, then its timeout fires
  and the backend write succeeds. No timeout is armed any more and the write is done,
  yet the timer handle and the cached document are still in the local store.
\<close>

theorem flush_keeps_entries_counterexample:
  "timers (fire 1 None (burst ''c'' ''i'' None [([(''a'', JNum 1)], False, 10)] world0)) = []
   \<and> length (setDocs (fire 1 None
        (burst ''c'' ''i'' None [([(''a'', JNum 1)], False, 10)] world0))) = 1
   \<and> localStorage (fire 1 None (burst ''c'' ''i'' None [([(''a'', JNum 1)], False, 10)] world0))
        (timerKey ''c'' ''i'') = Some (JNum 1)
   \<and> localStorage (fire 1 None (burst ''c'' ''i'' None [([(''a'', JNum 1)], False, 10)] world0))
        (documentKey ''c'' ''i'') \<noteq> None"
  by (simp add: model_defs)

text \<open>
  C5, as the code has it. A buffered write to a key whose cached document is already
  there arms a timeout, adds its handle to the registry and removes from the registry
  the handle recorded for that key (an earlier one, so a different one). A timeout that
  fires leaves the registry as it is. Nothing is said here of the first buffered write
  to a key.
\<close>

theorem registry_on_rewrite:
  assumes "c \<noteq> []" and "i \<noteq> []"
    and "localStorage w (documentKey c i) \<noteq> None"
    and "localStorage w (timerKey c i) = Some (JNum old)"
    and "old \<noteq> int (next_timer w)"
    and "registry_ok w"
  shows "JNum (int (next_timer w)) \<in> set (registry
            (fst (SetItem (Some c) (Some i) (Some d) overwrite callback True now None w)))
       \<and> (next_timer w, 3000, closure_of c i callback (d, overwrite, now)) \<in> set (timers
            (fst (SetItem (Some c) (Some i) (Some d) overwrite callback True now None w)))
       \<and> JNum old \<notin> set (registry
            (fst (SetItem (Some c) (Some i) (Some d) overwrite callback True now None w)))
       \<and> registry (fire h resp w) = registry w"
proof -
  let ?cl = "closure_of c i callback (d, overwrite, now)"
  obtain ids where ids: "(if \<not> truthy (parse_item w timerIDsKey) then JArr []
                          else parse_item w timerIDsKey) = JArr ids"
    using assms(6)
    by (cases "localStorage w timerIDsKey")
       (auto simp: registry_ok_def parse_item_def split: jsval.splits)
  obtain dv where dv: "localStorage w (documentKey c i) = Some dv"
    using assms(3) by auto
  have d: "delay ?cl w = delay_again ?cl (JArr ids) w"
    using dv ids by (simp add: delay_def Let_def closure_of_sel)
  have p: "parse_item w (timerKey (cl_collectionId ?cl) (cl_itemId ?cl)) = JNum old"
    using assms(4) by (simp add: parse_item_def closure_of_sel)
  have s: "SetItem (Some c) (Some i) (Some d) overwrite callback True now None w
             = delay_again ?cl (JArr ids) w"
    using assms(1,2) d by (simp add: SetItem_delay)
  show ?thesis
    unfolding s
    using delay_again_registry_mem [OF p assms(5), of ids] delay_again_timers [of w ?cl ids]
      fire_registry [of h resp w]
    by blast
qed


theorem registry_on_rewrite_witness:
  "''c'' \<noteq> [] \<and> ''i'' \<noteq> []
   \<and> localStorage (burst ''c'' ''i'' None [([(''a'', JNum 1)], False, 10)] world0)
        (documentKey ''c'' ''i'') \<noteq> None
   \<and> localStorage (burst ''c'' ''i'' None [([(''a'', JNum 1)], False, 10)] world0)
        (timerKey ''c'' ''i'') = Some (JNum 1)
   \<and> 1 \<noteq> int (next_timer (burst ''c'' ''i'' None [([(''a'', JNum 1)], False, 10)] world0))
   \<and> registry_ok (burst ''c'' ''i'' None [([(''a'', JNum 1)], False, 10)] world0)
   \<and> JNum 2 \<in> set (registry
        (fst (SetItem (Some ''c'') (Some ''i'') (Some [(''b'', JNum 2)]) False None True 20 None
           (burst ''c'' ''i'' None [([(''a'', JNum 1)], False, 10)] world0))))
   \<and> JNum 1 \<notin> set (registry
        (fst (SetItem (Some ''c'') (Some ''i'') (Some [(''b'', JNum 2)]) False None True 20 None
           (burst ''c'' ''i'' None [([(''a'', JNum 1)], False, 10)] world0))))"
  using registry_on_rewrite [of "''c''" "''i''"
      "burst ''c'' ''i'' None [([(''a'', JNum 1)], False, 10)] world0" 1
      "[(''b'', JNum 2)]" False None 20 1 None]
  by (simp add: registry_ok_def registry_def model_defs)

text \<open>
  C5 as stated fails: after two buffered writes to one key the timeout with handle 2
  is armed and registered; it fires, no timeout is armed any more, and handle 2 is
  still in the registry.
\<close>

theorem fired_handle_stays_registered_counterexample:
  "map fst (timers (burst ''c'' ''i'' None
       [([(''a'', JNum 1)], False, 10), ([(''b'', JNum 2)], False, 20)] world0)) = [2]
   \<and> timers (fire 2 None (burst ''c'' ''i'' None
       [([(''a'', JNum 1)], False, 10), ([(''b'', JNum 2)], False, 20)] world0)) = []
   \<and> JNum 2 \<in> set (registry (fire 2 None (burst ''c'' ''i'' None
       [([(''a'', JNum 1)], False, 10), ([(''b'', JNum 2)], False, 20)] world0)))"
  by (simp add: registry_def model_defs)

text \<open>
  C6, as the code has it. For an edit write with \<open>overwrite = false\<close> of a document
  whose \<open>_METADATA\<close> carries a (truthy) \<open>_DATE_CREATED\<close>, the stamped document handed to
  the flush has no \<open>_DATE_CREATED\<close> at all: its \<open>_METADATA\<close> is exactly
  \<open>{_DATE_LAST_MODIFIED: now, _DOCUMENT_ID: itemId}\<close>. The write is a merge
  (\<open>merge = true\<close>), so it sends no creation date, old or new.
\<close>

theorem stamp_omits_created:
  assumes "\<not> overwrite"
    and "truthy (member (field data ''_METADATA'') ''_DATE_CREATED'')"
    and "c \<noteq> []" and "itemId \<noteq> []"
  shows "field (stamp itemId data overwrite now) ''_METADATA''
           = JObj [(''_DATE_LAST_MODIFIED'', JDate now), (''_DOCUMENT_ID'', JStr itemId)]
       \<and> member (field (stamp itemId data overwrite now) ''_METADATA'') ''_DATE_CREATED''
           = JUndefined
       \<and> setDocs (fst (SetItem (Some c) (Some itemId) (Some data) overwrite callback False
                          now resp w))
           = setDocs w @ [\<lparr>sd_collectionId = c, sd_itemId = itemId,
                sd_document = stamp itemId data overwrite now, sd_merge = True\<rparr>]"
proof -
  have "truthy (field data ''_METADATA'')"
    using assms(2) by (rule truthy_member)
  then have m: "METADATA itemId data overwrite now
                 = [(''_DATE_LAST_MODIFIED'', JDate now), (''_DOCUMENT_ID'', JStr itemId)]"
    using assms(1,2) by (simp add: METADATA_def fresh_created_def)
  have f: "field (stamp itemId data overwrite now) ''_METADATA''
             = JObj [(''_DATE_LAST_MODIFIED'', JDate now), (''_DOCUMENT_ID'', JStr itemId)]"
    by (simp add: stamp_def field_update m)
  have s: "setDocs (fst (SetItem (Some c) (Some itemId) (Some data) overwrite callback False
                          now resp w))
           = setDocs w @ [\<lparr>sd_collectionId = c, sd_itemId = itemId,
                sd_document = stamp itemId data overwrite now, sd_merge = True\<rparr>]"
    using assms(1,3,4) by (simp add: SetItem_def missing_def Let_def saveToBackend_simps)
  show ?thesis
    using s by (simp add: f)
qed

theorem stamp_omits_created_witness:
  "\<not> False
   \<and> truthy (member (field [(''x'', JNum 5), (''_METADATA'', JObj [(''_DATE_CREATED'', JDate 1)])]
        ''_METADATA'') ''_DATE_CREATED'')
   \<and> ''c'' \<noteq> [] \<and> ''i'' \<noteq> []
   \<and> field (stamp ''i'' [(''x'', JNum 5), (''_METADATA'', JObj [(''_DATE_CREATED'', JDate 1)])]
        False 2) ''_METADATA''
       = JObj [(''_DATE_LAST_MODIFIED'', JDate 2), (''_DOCUMENT_ID'', JStr ''i'')]"
  using stamp_omits_created [of False
      "[(''x'', JNum 5), (''_METADATA'', JObj [(''_DATE_CREATED'', JDate 1)])]"
      "''c''" "''i''" 2 None None world0]
  by (simp add: field_def)

text \<open>
  C6 as stated fails: the data carries \<open>_DATE_CREATED = Date(1)\<close>; the stamped document
  does not carry that value.
\<close>

theorem created_not_carried_counterexample:
  "member (field [(''x'', JNum 5), (''_METADATA'', JObj [(''_DATE_CREATED'', JDate 1)])]
      ''_METADATA'') ''_DATE_CREATED'' = JDate 1
   \<and> member (field (stamp ''i''
        [(''x'', JNum 5), (''_METADATA'', JObj [(''_DATE_CREATED'', JDate 1)])] False 2)
      ''_METADATA'') ''_DATE_CREATED'' \<noteq> JDate 1"
  by (simp add: model_defs)

text \<open>
  C7. Every backend write \<open>AddItem\<close> makes goes to the generated id \<open>newId\<close> with a
  document whose \<open>_METADATA\<close> has \<open>_DATE_CREATED\<close> and \<open>_DATE_LAST_MODIFIED\<close> both
  equal to the clock reading of the call, hence equal, and \<open>_DOCUMENT_ID\<close> equal to
  \<open>newId\<close>; with a collection id, data and a callback it makes exactly one such write.
\<close>

theorem AddItem_metadata:
  "(\<forall>p \<in> set (new_setDocs w (fst (AddItem collectionId data callback newId now resp w))).
      sd_itemId p = newId
      \<and> member (field (sd_document p) ''_METADATA'') ''_DATE_CREATED'' = JDate now
      \<and> member (field (sd_document p) ''_METADATA'') ''_DATE_LAST_MODIFIED'' = JDate now
      \<and> member (field (sd_document p) ''_METADATA'') ''_DATE_CREATED''
          = member (field (sd_document p) ''_METADATA'') ''_DATE_LAST_MODIFIED''
      \<and> member (field (sd_document p) ''_METADATA'') ''_DOCUMENT_ID'' = JStr newId)
   \<and> (\<not> missing collectionId \<and> data \<noteq> None \<and> callback \<noteq> None
        \<longrightarrow> length (new_setDocs w (fst (AddItem collectionId data callback newId now resp w))) = 1)"
  by (cases collectionId; cases data; cases callback; cases resp)
     (simp_all add: AddItem_def new_setDocs_def missing_def call_def Let_def field_update
        split: callback.splits)

theorem AddItem_metadata_witness:
  "new_setDocs world0 (fst (AddItem (Some ''users'') (Some [(''name'', JStr ''ada'')])
       (Some (Callback 7)) ''id42'' 5 None world0))
     = [\<lparr>sd_collectionId = ''users'', sd_itemId = ''id42'',
          sd_document = [(''name'', JStr ''ada''),
            (''_METADATA'', JObj [(''_DATE_LAST_MODIFIED'', JDate 5),
               (''_DATE_CREATED'', JDate 5), (''_DOCUMENT_ID'', JStr ''id42'')])],
          sd_merge = False\<rparr>]
   \<and> member (field [(''name'', JStr ''ada''),
            (''_METADATA'', JObj [(''_DATE_LAST_MODIFIED'', JDate 5),
               (''_DATE_CREATED'', JDate 5), (''_DOCUMENT_ID'', JStr ''id42'')])]
         ''_METADATA'') ''_DATE_CREATED''
     = member (field [(''name'', JStr ''ada''),
            (''_METADATA'', JObj [(''_DATE_LAST_MODIFIED'', JDate 5),
               (''_DATE_CREATED'', JDate 5), (''_DOCUMENT_ID'', JStr ''id42'')])]
         ''_METADATA'') ''_DATE_LAST_MODIFIED''"
  using AddItem_metadata [of world0 "Some ''users''" "Some [(''name'', JStr ''ada'')]"
      "Some (Callback 7)" "''id42''" 5 None]
  by (simp add: AddItem_def new_setDocs_def missing_def call_def world0_simps Let_def field_def)

text \<open>
  C8. \<open>GetItem\<close> of the second file of store.js, called with \<open>collectionId\<close> missing,
  an \<open>itemId\<close> and a callback: it reports the invalid parameters through the callback
  and then, having no \<open>return\<close>, runs on into the operation and throws a ReferenceError
  at \<open>getDatabase\<close>. \<open>GetItem\<close> of the first file returns after the same report.
\<close>

theorem GetItem_2_reports_then_throws:
  "snd (GetItem_2 None (Some ''x'') (Some (Callback 1)) Absent world0) = Threw ReferenceError
   \<and> callbacks (fst (GetItem_2 None (Some ''x'') (Some (Callback 1)) Absent world0))
       = [(1, ERROR, Invalid_parameters)]
   \<and> snd (GetItem None (Some ''x'') (Some (Callback 1)) Absent world0) = Returned Undefined
   \<and> callbacks (fst (GetItem None (Some ''x'') (Some (Callback 1)) Absent world0))
       = [(1, ERROR, Invalid_parameters)]"
  by (simp add: GetItem_2_def GetItem_def missing_def call_def world0_def)

text \<open>
  C9. \<open>SetItem\<close> of store.js and of asyncstore.js, with the same valid inputs, a
  callback and \<open>useDelay = false\<close>. Both make the same one backend write, with
  \<open>merge = !overwrite\<close>. When the write succeeds store.js calls the callback with
  SUCCESS and the document, and asyncstore.js calls nothing; when the backend rejects
  it store.js calls the callback with ERROR and the error, and asyncstore.js again calls
  nothing and returns the rejected promise. The docstring of asyncstore.js says of
  \<open>callback\<close> that it is run once the backend has updated.
\<close>

theorem async_SetItem_never_reports_through_callback:
  "setDocs (fst (async_SetItem (Some ''c'') (Some ''i'') (Some [(''a'', JNum 1)]) False
       (Some (Callback 7)) False 10 None world0))
     = setDocs (fst (SetItem (Some ''c'') (Some ''i'') (Some [(''a'', JNum 1)]) False
       (Some (Callback 7)) False 10 None world0))
   \<and> setDocs (fst (async_SetItem (Some ''c'') (Some ''i'') (Some [(''a'', JNum 1)]) False
       (Some (Callback 7)) False 10 None world0))
     = [\<lparr>sd_collectionId = ''c'', sd_itemId = ''i'',
          sd_document = stamp ''i'' [(''a'', JNum 1)] False 10, sd_merge = True\<rparr>]
   \<and> callbacks (fst (SetItem (Some ''c'') (Some ''i'') (Some [(''a'', JNum 1)]) False
       (Some (Callback 7)) False 10 None world0))
     = [(7, SUCCESS, Document (stamp ''i'' [(''a'', JNum 1)] False 10))]
   \<and> callbacks (fst (async_SetItem (Some ''c'') (Some ''i'') (Some [(''a'', JNum 1)]) False
       (Some (Callback 7)) False 10 None world0)) = []
   \<and> callbacks (fst (SetItem (Some ''c'') (Some ''i'') (Some [(''a'', JNum 1)]) False
       (Some (Callback 7)) False 10 (Some ''unavailable'') world0))
     = [(7, ERROR, Backend_error ''unavailable'')]
   \<and> callbacks (fst (async_SetItem (Some ''c'') (Some ''i'') (Some [(''a'', JNum 1)]) False
       (Some (Callback 7)) False 10 (Some ''unavailable'') world0)) = []
   \<and> snd (async_SetItem (Some ''c'') (Some ''i'') (Some [(''a'', JNum 1)]) False
       (Some (Callback 7)) False 10 (Some ''unavailable'') world0)
     = Returned (Promise (Rejected ''unavailable''))"
  by (simp add: SetItem_def async_SetItem_def missing_def Let_def saveToBackend_def
      call_def world0_def)

text \<open>
  C10. With nothing stored under \<open>TIMER_IDS\<close> the parsed registry is \<open>null\<close>, and the
  shutdown handler throws a TypeError on reading \<open>timerIds.lenth\<close>.
\<close>

theorem shutdown_handler_throws_on_fresh_store:
  "localStorage world0 timerIDsKey = None
   \<and> clearCacheBeforeUnload event0 world0 = (event0, Threw TypeError)"
  by (simp add: clearCacheBeforeUnload_def model_defs)

end
